theory Spec2Isabelle
  imports Complex_Main "HOL-Library.Word" "HOL-Library.Sublist" "HOL-Library.AList"
begin

section \<open>JavaScript strings\<close>

text \<open>
  A JavaScript string is a sequence of UTF-16 code units. String literals of the source are
  ASCII, so \<open>js\<close> turns a HOL literal into the code units the program holds.
\<close>

type_synonym code_unit = "16 word"
type_synonym jsstring = "code_unit list"

definition js :: "string \<Rightarrow> jsstring" where
  "js s = map of_char s"

text \<open>
  \<open>String.prototype.trim\<close> removes the WhiteSpace and LineTerminator code points of
  ECMAScript from both ends: TAB, LF, VT, FF, CR, SP, NBSP, the other space separators
  (U+1680, U+2000 to U+200A, U+202F, U+205F, U+3000), LS, PS and U+FEFF.
\<close>

definition isWhiteSpace :: "code_unit \<Rightarrow> bool" where
  "isWhiteSpace c \<longleftrightarrow>
     c \<in> set [0x09, 0x0A, 0x0B, 0x0C, 0x0D, 0x20, 0xA0, 0x1680,
               0x2028, 0x2029, 0x202F, 0x205F, 0x3000, 0xFEFF]
     \<or> (0x2000 \<le> c \<and> c \<le> 0x200A)"

definition trim :: "jsstring \<Rightarrow> jsstring" where
  "trim s = rev (dropWhile isWhiteSpace (rev (dropWhile isWhiteSpace s)))"

text \<open>
  \<open>toLowerCase\<close> on the letters A to Z. The program lower-cases only the labels of
  \<open>filterOptions\<close>, which are ASCII; on other code units this model is the identity.
\<close>

definition lowerUnit :: "code_unit \<Rightarrow> code_unit" where
  "lowerUnit c = (if 0x41 \<le> c \<and> c \<le> 0x5A then c + 0x20 else c)"

definition toLowerCase :: "jsstring \<Rightarrow> jsstring" where
  "toLowerCase s = map lowerUnit s"

text \<open>Truthiness of an optional string: \<open>undefined\<close> and the empty string are falsy.\<close>

fun truthy :: "jsstring option \<Rightarrow> bool" where
  "truthy None = False"
| "truthy (Some s) = (s \<noteq> [])"

text \<open>
  A thrown value: an \<open>Error\<close> object with its message (a \<open>TypeError\<close> is one), or any
  other value, which \<open>instanceof Error\<close> rejects.
\<close>

datatype thrown = JsError jsstring | NonError

section \<open>types.ts\<close>

record LatLng =
  latitude :: real
  longitude :: real

record GroundingUrl =
  uri :: jsstring
  title :: "jsstring option"

record Place =
  name :: jsstring
  address :: jsstring
  description :: jsstring
  category :: jsstring
  website :: "jsstring option"

record MapsGroundingResult =
  summary :: jsstring
  places :: "Place list"
  urls :: "GroundingUrl list"

section \<open>The grounding client: getPlaceInfo\<close>

subsection \<open>Request and response of generateContent\<close>

datatype Tool = googleMaps

record GenerateContentParameters =
  model :: jsstring
  contents :: jsstring
  tools :: "Tool list"
  retrievalLatLng :: LatLng

text \<open>
  The response has the shape the function reads: every field it guards with \<open>?.\<close> or an
  \<open>if\<close> is optional. \<open>response.text\<close> is read without a guard; when the response has no
  text part it is \<open>undefined\<close> and \<open>.trim()\<close> throws a \<open>TypeError\<close>. So does \<open>for...of\<close>
  on a \<open>placeAnswerSources\<close> that is not iterable.
\<close>

record ReviewSnippet =
  snippet_uri :: "jsstring option"

record PlaceAnswerSource =
  reviewSnippets :: "ReviewSnippet list option"

text \<open>
  \<open>placeAnswerSources\<close> as a response can carry it: an array of sources, which is what the
  function iterates over, or a single object that holds the review snippets, which is not
  iterable.
\<close>

datatype PlaceAnswerSources =
    SourceArray "PlaceAnswerSource list"
  | SourceObject PlaceAnswerSource

record GroundingChunkMaps =
  maps_uri :: "jsstring option"
  maps_title :: "jsstring option"
  placeAnswerSources :: "PlaceAnswerSources option"

record GroundingChunk =
  maps :: "GroundingChunkMaps option"

record GroundingMetadata =
  groundingChunks :: "GroundingChunk list option"

record Candidate =
  groundingMetadata :: "GroundingMetadata option"

record GenerateContentResponse =
  response_text :: "jsstring option"
  candidates :: "Candidate list option"

type_synonym generateContent =
  "GenerateContentParameters \<Rightarrow> thrown + GenerateContentResponse"

subsection \<open>The effective query\<close>

definition defaultQuery :: jsstring where
  "defaultQuery = js ''List key points of interest, famous landmarks, popular restaurants, and other notable locations in this area. Include details like address and a brief description for each. Provide comprehensive details.''"

text \<open>\<open>query.trim() || default\<close>: the empty string is falsy.\<close>

definition effectiveQuery :: "jsstring \<Rightarrow> jsstring" where
  "effectiveQuery query = (if trim query \<noteq> [] then trim query else defaultQuery)"

definition request :: "LatLng \<Rightarrow> jsstring \<Rightarrow> GenerateContentParameters" where
  "request targetLatLng query =
     \<lparr> model = js ''gemini-2.5-flash'',
       contents = effectiveQuery query,
       tools = [googleMaps],
       retrievalLatLng = \<lparr> latitude = latitude targetLatLng,
                           longitude = longitude targetLatLng \<rparr> \<rparr>"

subsection \<open>Extracting the candidate links\<close>

text \<open>
  The three nested loops push onto \<open>urls\<close> in iteration order; each function below is one
  loop and returns what it pushes, or what it throws.
\<close>

definition snippetUrls :: "ReviewSnippet list \<Rightarrow> GroundingUrl list" where
  "snippetUrls snippets =
     concat (map (\<lambda>snippet.
       if truthy (snippet_uri snippet)
       then [\<lparr> uri = the (snippet_uri snippet), title = None \<rparr>] else []) snippets)"

definition sourceUrls :: "PlaceAnswerSource list \<Rightarrow> GroundingUrl list" where
  "sourceUrls sources =
     concat (map (\<lambda>source.
       case reviewSnippets source of
         None \<Rightarrow> []
       | Some snippets \<Rightarrow> snippetUrls snippets) sources)"

definition notIterableMessage :: jsstring where
  "notIterableMessage = js ''chunk.maps.placeAnswerSources is not iterable''"

text \<open>
  \<open>for (const source of chunk.maps.placeAnswerSources)\<close>: an array yields its elements, a
  plain object has no iterator and the statement throws a \<open>TypeError\<close>.
\<close>

fun iterate :: "PlaceAnswerSources \<Rightarrow> thrown + PlaceAnswerSource list" where
  "iterate (SourceArray sources) = Inr sources"
| "iterate (SourceObject source) = Inl (JsError notIterableMessage)"

definition chunkUrls :: "GroundingChunk \<Rightarrow> thrown + GroundingUrl list" where
  "chunkUrls chunk =
     (case maps chunk of
        None \<Rightarrow> Inr []
      | Some m \<Rightarrow>
          (let direct = (if truthy (maps_uri m)
                         then [\<lparr> uri = the (maps_uri m), title = maps_title m \<rparr>] else [])
           in case placeAnswerSources m of
                None \<Rightarrow> Inr direct
              | Some pas \<Rightarrow>
                  (case iterate pas of
                     Inl e \<Rightarrow> Inl e
                   | Inr sources \<Rightarrow> Inr (direct @ sourceUrls sources))))"

text \<open>The loop over the chunks ends at the first chunk that throws.\<close>

fun chunksUrls :: "GroundingChunk list \<Rightarrow> thrown + GroundingUrl list" where
  "chunksUrls [] = Inr []"
| "chunksUrls (chunk # chunks) =
     (case chunkUrls chunk of
        Inl e \<Rightarrow> Inl e
      | Inr us \<Rightarrow>
          (case chunksUrls chunks of
             Inl e \<Rightarrow> Inl e
           | Inr vs \<Rightarrow> Inr (us @ vs)))"

text \<open>\<open>response.candidates?.[0]?.groundingMetadata?.groundingChunks\<close>\<close>

definition responseChunks :: "GenerateContentResponse \<Rightarrow> GroundingChunk list option" where
  "responseChunks response =
     (case candidates response of
        None \<Rightarrow> None
      | Some [] \<Rightarrow> None
      | Some (c # _) \<Rightarrow>
          (case groundingMetadata c of
             None \<Rightarrow> None
           | Some gm \<Rightarrow> groundingChunks gm))"

definition extractUrls :: "GenerateContentResponse \<Rightarrow> thrown + GroundingUrl list" where
  "extractUrls response =
     (case responseChunks response of
        None \<Rightarrow> Inr []
      | Some chunks \<Rightarrow> chunksUrls chunks)"

subsection \<open>Deduplication through a Map\<close>

text \<open>
  A JavaScript \<open>Map\<close> keeps its entries in insertion order; \<open>set\<close> on a key already
  present replaces the value and leaves the entry where it is, which is
  \<^const>\<open>AList.update\<close>. \<open>new Map(entries)\<close> sets the entries one after the other.
\<close>

definition newMap :: "('k \<times> 'v) list \<Rightarrow> ('k \<times> 'v) list" where
  "newMap entries = foldl (\<lambda>m (k, v). AList.update k v m) [] entries"

definition mapValues :: "('k \<times> 'v) list \<Rightarrow> 'v list" where
  "mapValues m = map snd m"

text \<open>
  What the specification asks of the deduplication, in its own words: every element once,
  in the order of first occurrence.
\<close>

fun firstSeen :: "'a list \<Rightarrow> 'a list" where
  "firstSeen [] = []"
| "firstSeen (x # xs) = x # removeAll x (firstSeen xs)"

definition uniqueUrls :: "GroundingUrl list \<Rightarrow> GroundingUrl list" where
  "uniqueUrls us = mapValues (newMap (map (\<lambda>item. (uri item, item)) us))"

subsection \<open>getPlaceInfo\<close>

text \<open>Two API behaviours used in examples: one answers every request, one always throws.\<close>

definition answering :: "GenerateContentResponse \<Rightarrow> generateContent" where
  "answering response req = Inr response"

definition throwing :: "thrown \<Rightarrow> generateContent" where
  "throwing e req = Inl e"

definition typeErrorMessage :: jsstring where
  "typeErrorMessage = js ''Cannot read properties of undefined (reading 'trim')''"

definition failedMessage :: jsstring where
  "failedMessage = js ''Failed to fetch information. Please check your network and try again.''"

text \<open>
  The client object is created before the \<open>try\<close> block; the model starts once it exists
  and takes its \<open>generateContent\<close> as the parameter \<open>api\<close>.
\<close>

text \<open>
  The \<open>try\<close> block: what it returns, or what it throws (the exception of the API call,
  the \<open>TypeError\<close> of \<open>response.text.trim()\<close>, or the one of the loops; the messages are
  those that V8 gives them).
\<close>

definition tryBlock :: "generateContent \<Rightarrow> LatLng \<Rightarrow> jsstring \<Rightarrow> thrown + MapsGroundingResult" where
  "tryBlock api targetLatLng query =
     (case api (request targetLatLng query) of
        Inl e \<Rightarrow> Inl e
      | Inr response \<Rightarrow>
          (case response_text response of
             None \<Rightarrow> Inl (JsError typeErrorMessage)
           | Some t \<Rightarrow>
               (case extractUrls response of
                  Inl e \<Rightarrow> Inl e
                | Inr us \<Rightarrow>
                    Inr \<lparr> summary = trim t,
                          places = [],
                          urls = uniqueUrls us \<rparr>)))"

text \<open>
  The \<open>catch\<close> clause logs the exception on the console, which is not part of the model,
  and throws a new \<open>Error\<close>.
\<close>

definition getPlaceInfo :: "generateContent \<Rightarrow> LatLng \<Rightarrow> jsstring \<Rightarrow> thrown + MapsGroundingResult" where
  "getPlaceInfo api targetLatLng query =
     (case tryBlock api targetLatLng query of
        Inl error \<Rightarrow> Inl (JsError failedMessage)
      | Inr result \<Rightarrow> Inr result)"

subsection \<open>An example response\<close>

text \<open>A response whose two grounding chunks carry the same URI under different titles.\<close>

definition duplicateResponse :: GenerateContentResponse where
  "duplicateResponse =
     \<lparr> response_text = Some (js ''Hello''),
       candidates = Some [\<lparr> groundingMetadata = Some \<lparr> groundingChunks = Some
         [ \<lparr> maps = Some \<lparr> maps_uri = Some (js ''u''), maps_title = Some (js ''A''),
                            placeAnswerSources = None \<rparr> \<rparr>,
           \<lparr> maps = Some \<lparr> maps_uri = Some (js ''u''), maps_title = Some (js ''B''),
                            placeAnswerSources = None \<rparr> \<rparr> ] \<rparr> \<rparr>] \<rparr>"

section \<open>The user interface controller: App.tsx\<close>

subsection \<open>State\<close>

datatype SearchContext = kottayam | currentLocation

text \<open>
  The state of the component, one field for each \<open>useState\<close> that has a setter.
  (\<open>searchResults\<close> and \<open>selectedPlace\<close> have none and stay \<open>[]\<close> and \<open>null\<close>.)
\<close>

record AppState =
  userLocation :: "LatLng option"
  actualUserLocationDetermined :: bool
  searchContext :: SearchContext
  prompt :: jsstring
  filterCategory :: jsstring
  generalSummary :: "jsstring option"
  responseUrls :: "GroundingUrl list"
  loading :: bool
  error :: "jsstring option"

definition initialState :: AppState where
  "initialState =
     \<lparr> userLocation = None,
       actualUserLocationDetermined = False,
       searchContext = kottayam,
       prompt = [],
       filterCategory = js ''all'',
       generalSummary = None,
       responseUrls = [],
       loading = False,
       error = None \<rparr>"

definition defaultKottayamCoords :: LatLng where
  "defaultKottayamCoords = \<lparr> latitude = 9.5916, longitude = 76.5050 \<rparr>"

text \<open>The options as pairs of \<open>value\<close> and \<open>label\<close>.\<close>

definition filterOptions :: "(jsstring \<times> jsstring) list" where
  "filterOptions =
     [ (js ''all'', js ''All Categories''),
       (js ''companies_shops'', js ''Companies & Shops''),
       (js ''restaurants'', js ''Restaurants''),
       (js ''attractions'', js ''Attractions & Landmarks''),
       (js ''hotels'', js ''Hotels & Accommodations''),
       (js ''services'', js ''Services (e.g., banks, hospitals)'') ]"

subsection \<open>Composing the query\<close>

definition dquote :: jsstring where
  "dquote = [0x22]"

text \<open>The template literal that starts the query, with its line breaks and indentation.\<close>

definition queryHead :: jsstring where
  "queryHead = js ''You are a helpful assistant providing local information. Provide a detailed overview of places based on the user's request.\<newline>    For each place, include its name, comprehensive address, a detailed description, and its category (e.g., Restaurant, Shop, Landmark). If available, also include a website.\<newline>    Always prioritize comprehensive details for each listed place.\<newline>    ''"

definition genericClause :: jsstring where
  "genericClause = js '' Include various types of places such as companies, shops, restaurants, attractions, and services.''"

text \<open>
  \<open>filterOptions.find(opt => opt.value === filterCategory)?.label\<close>, lower-cased inside the
  template; an \<open>undefined\<close> label is printed as the word.
\<close>

definition filterLabel :: "jsstring \<Rightarrow> jsstring option" where
  "filterLabel fc = map_option snd (find (\<lambda>opt. fst opt = fc) filterOptions)"

definition labelText :: "jsstring \<Rightarrow> jsstring" where
  "labelText fc = (case filterLabel fc of None \<Rightarrow> js ''undefined'' | Some l \<Rightarrow> toLowerCase l)"

text \<open>
  The query that \<open>handleSearch\<close> builds from the search context, the category filter and
  the free text: \<open>q1\<close> and \<open>q2\<close> are \<open>effectiveQuery\<close> after the first and the second
  \<open>+=\<close>, the result is its value after the third.
\<close>

definition currentAreaName :: "SearchContext \<Rightarrow> jsstring" where
  "currentAreaName ctx =
     (if ctx = kottayam then js ''Kottayam city'' else js ''this area near my current location'')"

definition composeQuery :: "SearchContext \<Rightarrow> jsstring \<Rightarrow> jsstring \<Rightarrow> jsstring" where
  "composeQuery ctx fc p =
     (let q1 = (if trim p \<noteq> []
                then queryHead @ js ''The user is looking for: '' @ dquote @ trim p @ dquote @ js ''.''
                else queryHead);
          q2 = (if fc \<noteq> js ''all''
                then q1 @ js '' Specifically focus on results in the '' @ dquote @ labelText fc
                        @ dquote @ js '' category.''
                else q1 @ genericClause)
      in q2 @ js '' Provide details for places in '' @ currentAreaName ctx @ js ''.'')"

subsection \<open>handleSearch\<close>

type_synonym service = "LatLng \<Rightarrow> jsstring \<Rightarrow> thrown + MapsGroundingResult"

definition undeterminedMessage :: jsstring where
  "undeterminedMessage = js ''Your current location could not be determined. Please select 'Kottayam City' or enable geolocation.''"

definition noTargetMessage :: jsstring where
  "noTargetMessage = js ''Unable to determine search location. Please try again.''"

text \<open>
  The first part of \<open>handleSearch\<close>: the target coordinate and the description of the
  location, or the message of the early return.
\<close>

definition target :: "AppState \<Rightarrow> jsstring + (LatLng option \<times> jsstring)" where
  "target s =
     (case searchContext s of
        kottayam \<Rightarrow> Inr (Some defaultKottayamCoords, js ''Kottayam city'')
      | currentLocation \<Rightarrow>
          (if actualUserLocationDetermined s \<and> userLocation s \<noteq> None
           then Inr (userLocation s, js ''your current location'')
           else Inl undeterminedMessage))"

text \<open>
  What the state becomes once the awaited call has settled: the \<open>try\<close>, the \<open>catch\<close> and
  the \<open>finally\<close>.
\<close>

definition settle :: "jsstring \<Rightarrow> thrown + MapsGroundingResult \<Rightarrow> AppState \<Rightarrow> AppState" where
  "settle locationDescription outcome s =
     (case outcome of
        Inr result \<Rightarrow>
          s\<lparr> generalSummary := Some (summary result), responseUrls := urls result \<rparr>
      | Inl (JsError message) \<Rightarrow>
          s\<lparr> error := Some (js ''Error fetching data for '' @ locationDescription
                              @ js '': '' @ message) \<rparr>
      | Inl NonError \<Rightarrow>
          s\<lparr> error := Some (js ''An unexpected error occurred while fetching data for ''
                              @ locationDescription @ js ''.'') \<rparr>)
     \<lparr> loading := False \<rparr>"

text \<open>
  \<open>handleSearch\<close> with the service it calls as a parameter. It returns the calls made to
  the service, each with its coordinate and query, and the state after the handler.
\<close>

definition handleSearch :: "service \<Rightarrow> AppState \<Rightarrow> (LatLng \<times> jsstring) list \<times> AppState" where
  "handleSearch svc s =
     (case target s of
        Inl message \<Rightarrow> ([], s\<lparr> error := Some message \<rparr>)
      | Inr (targetCoords, locationDescription) \<Rightarrow>
          (case targetCoords of
             None \<Rightarrow> ([], s\<lparr> error := Some noTargetMessage \<rparr>)
           | Some coords \<Rightarrow>
               (let s1 = s\<lparr> loading := True, error := None,
                            generalSummary := None, responseUrls := [] \<rparr>;
                    q = composeQuery (searchContext s) (filterCategory s) (prompt s)
                in ([(coords, q)], settle locationDescription (svc coords q) s1))))"

section \<open>Facts about strings\<close>

text \<open>\<open>trim\<close> cuts whitespace, and nothing else, from the two ends.\<close>

lemma trim_decompose:
  "\<exists>pre post. s = pre @ trim s @ post
     \<and> (\<forall>c\<in>set pre. isWhiteSpace c) \<and> (\<forall>c\<in>set post. isWhiteSpace c)"
proof -
  let ?d = "dropWhile isWhiteSpace s"
  have 1: "s = takeWhile isWhiteSpace s @ ?d"
    by simp
  have "rev (takeWhile isWhiteSpace (rev ?d) @ dropWhile isWhiteSpace (rev ?d)) = ?d"
    by (simp only: takeWhile_dropWhile_id rev_rev_ident)
  then have 2: "?d = trim s @ rev (takeWhile isWhiteSpace (rev ?d))"
    by (simp only: rev_append trim_def)
  have 3: "\<forall>c\<in>set (takeWhile isWhiteSpace s). isWhiteSpace c"
    by (auto dest: set_takeWhileD)
  have 4: "\<forall>c\<in>set (rev (takeWhile isWhiteSpace (rev ?d))). isWhiteSpace c"
    by (auto dest: set_takeWhileD)
  from 1 2 have "s = takeWhile isWhiteSpace s @ trim s @ rev (takeWhile isWhiteSpace (rev ?d))"
    by simp
  with 3 4 show ?thesis by blast
qed

lemma trim_ends:
  assumes "trim s \<noteq> []"
  shows "\<not> isWhiteSpace (hd (trim s))" and "\<not> isWhiteSpace (last (trim s))"
proof -
  let ?d = "dropWhile isWhiteSpace s"
  let ?e = "dropWhile isWhiteSpace (rev ?d)"
  from assms have e: "?e \<noteq> []"
    by (simp add: trim_def)
  then have "\<not> isWhiteSpace (hd ?e)"
    by (rule hd_dropWhile)
  then show "\<not> isWhiteSpace (last (trim s))"
    using e by (simp add: trim_def last_rev)
  have d: "?d \<noteq> []"
  proof
    assume "?d = []"
    then have "?e = []" by (simp only: rev.simps dropWhile.simps)
    with e show False by (simp only: not_True_eq_False)
  qed
  then have hd: "\<not> isWhiteSpace (hd ?d)"
    by (rule hd_dropWhile)
  have "hd (trim s) = last ?e"
    using e by (simp add: trim_def hd_rev)
  also have "\<dots> = last (rev ?d)"
    using e by (metis last_appendR takeWhile_dropWhile_id)
  also have "\<dots> = hd ?d"
    using d by (simp add: last_rev)
  finally show "\<not> isWhiteSpace (hd (trim s))"
    using hd by simp
qed

lemma upper_shift: "0x41 \<le> c \<Longrightarrow> c \<le> 0x5A \<Longrightarrow> \<not> (c + 0x20 \<le> (0x5A::code_unit))"
proof -
  assume a: "0x41 \<le> c" and b: "c \<le> 0x5A"
  from b have u: "unat c \<le> 90"
    by (simp add: word_le_nat_alt)
  then have "unat (c + 0x20) = unat c + 32"
    by (simp add: unat_word_ariths)
  moreover from a have "65 \<le> unat c"
    by (simp add: word_le_nat_alt)
  ultimately show ?thesis
    by (simp add: word_le_nat_alt)
qed

lemma lowerUnit_idem: "lowerUnit (lowerUnit c) = lowerUnit c"
  by (simp add: lowerUnit_def upper_shift)

lemma toLowerCase_idem: "toLowerCase (toLowerCase s) = toLowerCase s"
  by (simp add: toLowerCase_def lowerUnit_idem)

lemma sublist_appendL: "sublist xs ys \<Longrightarrow> sublist xs (zs @ ys)"
  by (auto simp: sublist_append)

lemma sublist_appendR: "sublist xs ys \<Longrightarrow> sublist xs (ys @ zs)"
  by (auto simp: sublist_append)

lemma sublist_ConsR: "sublist xs ys \<Longrightarrow> sublist xs (y # ys)"
  by (auto simp: sublist_Cons_right)

text \<open>
  A string without the code unit \<open>q\<close> that occurs in \<open>a @ q # b\<close> occurs in \<open>a\<close> or in
  \<open>b\<close>: it cannot lie across \<open>q\<close>.
\<close>

lemma sublist_split_at:
  assumes q: "q \<notin> set xs"
  shows "sublist xs (a @ q # b) \<longleftrightarrow> sublist xs a \<or> sublist xs b"
proof
  assume "sublist xs (a @ q # b)"
  then obtain ps ss where eq: "a @ q # b = ps @ xs @ ss"
    by (auto simp: sublist_def)
  then consider us where "a = ps @ us" "us @ q # b = xs @ ss"
    | us where "a @ us = ps" "q # b = us @ xs @ ss"
    by (auto simp: append_eq_append_conv2)
  then show "sublist xs a \<or> sublist xs b"
  proof cases
    case 1
    from 1(2) consider vs where "us = xs @ vs" | vs where "us @ vs = xs" "q # b = vs @ ss"
      by (auto simp: append_eq_append_conv2)
    then show ?thesis
    proof cases
      case 1
      with \<open>a = ps @ us\<close> have "a = ps @ xs @ vs" by simp
      then show ?thesis by (auto simp: sublist_def)
    next
      case 2
      show ?thesis
      proof (cases vs)
        case Nil
        with 2 \<open>a = ps @ us\<close> have "a = ps @ xs @ []" by simp
        then show ?thesis unfolding sublist_def by blast
      next
        case (Cons v vs')
        with 2 have "q \<in> set xs" by auto
        with q show ?thesis by simp
      qed
    qed
  next
    case 2
    show ?thesis
    proof (cases us)
      case Nil
      with 2 have "q # b = xs @ ss" by simp
      with q have "xs = []" by (cases xs) auto
      then show ?thesis by simp
    next
      case (Cons u us')
      with 2 have "b = us' @ xs @ ss" by simp
      then show ?thesis unfolding sublist_def by blast
    qed
  qed
next
  assume "sublist xs a \<or> sublist xs b"
  then show "sublist xs (a @ q # b)"
    by (auto simp: sublist_append sublist_Cons_right)
qed

section \<open>Facts about the deduplication\<close>

lemma newMap_Nil: "newMap [] = []"
  by (simp add: newMap_def)

lemma uniqueUrls_Nil: "uniqueUrls [] = []"
  by (simp add: uniqueUrls_def mapValues_def newMap_Nil)

lemma newMap_snoc: "newMap (es @ [(k, v)]) = AList.update k v (newMap es)"
  by (simp add: newMap_def)

lemma set_firstSeen: "set (firstSeen xs) = set xs"
  by (induction xs) auto

lemma distinct_firstSeen: "distinct (firstSeen xs)"
  by (induction xs) (auto simp: distinct_removeAll)

lemma firstSeen_snoc:
  "firstSeen (xs @ [x]) = (if x \<in> set xs then firstSeen xs else firstSeen xs @ [x])"
  by (induction xs) (auto simp: set_firstSeen)

text \<open>In library terms: \<open>firstSeen\<close> keeps the first occurrences, \<open>remdups\<close> the last ones.\<close>

lemma firstSeen_remdups: "firstSeen xs = rev (remdups (rev xs))"
  by (induction xs rule: rev_induct) (simp_all add: firstSeen_snoc)

text \<open>The keys of the map are the keys of the entries in the order of first occurrence.\<close>

lemma keys_newMap: "map fst (newMap es) = firstSeen (map fst es)"
proof (induction es rule: rev_induct)
  case Nil
  show ?case by (simp add: newMap_def)
next
  case (snoc e es)
  obtain k v where e: "e = (k, v)" by (cases e)
  have "set (map fst (newMap es)) = set (map fst es)"
    by (simp only: snoc.IH set_firstSeen)
  then show ?case
    using snoc.IH by (simp add: e newMap_snoc update_keys firstSeen_snoc)
qed

text \<open>The value under a key is the one of the last entry with that key.\<close>

lemma map_of_newMap: "map_of (newMap es) = map_of (rev es)"
proof (induction es rule: rev_induct)
  case Nil
  show ?case by (simp add: newMap_def)
next
  case (snoc e es)
  obtain k v where e: "e = (k, v)" by (cases e)
  show ?case by (simp add: e newMap_snoc update_conv' snoc.IH)
qed

lemma map_of_rev_keyed:
  "map_of (rev (map (\<lambda>item. (f item, item)) xs)) k = Some y \<Longrightarrow>
   f y = k \<and> y = last (filter (\<lambda>c. f c = k) xs)"
  by (induction xs rule: rev_induct) (auto split: if_splits)

lemma uniqueUrls_last:
  assumes "item \<in> set (uniqueUrls us)"
  shows "item = last (filter (\<lambda>c. uri c = uri item) us)"
proof -
  let ?es = "map (\<lambda>item. (uri item, item)) us"
  from assms obtain k where k: "(k, item) \<in> set (newMap ?es)"
    by (auto simp: uniqueUrls_def mapValues_def)
  moreover have "distinct (map fst (newMap ?es))"
    by (simp only: keys_newMap distinct_firstSeen)
  ultimately have "map_of (newMap ?es) k = Some item"
    by simp
  then have "map_of (rev ?es) k = Some item"
    by (simp only: map_of_newMap)
  then have "uri item = k \<and> item = last (filter (\<lambda>c. uri c = k) us)"
    by (rule map_of_rev_keyed)
  then have a: "uri item = k" and b: "item = last (filter (\<lambda>c. uri c = k) us)"
    by blast+
  show ?thesis unfolding a by (rule b)
qed

lemma uniqueUrls_uris: "map uri (uniqueUrls us) = firstSeen (map uri us)"
proof -
  let ?es = "map (\<lambda>item. (uri item, item)) us"
  have v: "\<forall>(k, item) \<in> set (newMap ?es). uri item = k"
  proof (clarify)
    fix k item
    assume "(k, item) \<in> set (newMap ?es)"
    moreover have "distinct (map fst (newMap ?es))"
      by (simp only: keys_newMap distinct_firstSeen)
    ultimately have "map_of (newMap ?es) k = Some item"
      by simp
    then have "map_of (rev ?es) k = Some item"
      by (simp only: map_of_newMap)
    then show "uri item = k"
      by (rule map_of_rev_keyed [THEN conjunct1])
  qed
  have "map uri (map snd (newMap ?es)) = map fst (newMap ?es)"
    using v by auto
  also have "\<dots> = firstSeen (map fst ?es)"
    by (rule keys_newMap)
  also have "map fst ?es = map uri us"
    by (simp add: comp_def)
  finally show ?thesis
    by (simp add: uniqueUrls_def mapValues_def)
qed

lemma set_uniqueUrls_uris: "uri ` set (uniqueUrls us) = uri ` set us"
proof -
  have "set (map uri (uniqueUrls us)) = set (map uri us)"
    by (simp only: uniqueUrls_uris set_firstSeen)
  then show ?thesis by simp
qed

section \<open>Facts about the extraction\<close>

lemma truthy_iff: "truthy x \<longleftrightarrow> (\<exists>u. x = Some u \<and> u \<noteq> [])"
  by (cases x) auto

lemma snippetUrls_simps:
  "snippetUrls [] = []"
  "snippetUrls (snippet # snippets) =
     (if truthy (snippet_uri snippet)
      then \<lparr> uri = the (snippet_uri snippet), title = None \<rparr> # snippetUrls snippets
      else snippetUrls snippets)"
  by (simp_all add: snippetUrls_def)

lemma in_snippetUrls:
  "x \<in> set (snippetUrls snippets) \<longleftrightarrow>
     (\<exists>snippet \<in> set snippets. \<exists>u. snippet_uri snippet = Some u \<and> u \<noteq> []
        \<and> x = \<lparr> uri = u, title = None \<rparr>)"
proof (induction snippets)
  case Nil
  show ?case by (simp add: snippetUrls_simps)
next
  case (Cons snippet snippets)
  show ?case
  proof (cases "snippet_uri snippet")
    case None
    then show ?thesis using Cons.IH by (simp add: snippetUrls_simps)
  next
    case (Some u)
    then show ?thesis using Cons.IH by (auto simp: snippetUrls_simps)
  qed
qed

lemma sourceUrls_simps:
  "sourceUrls [] = []"
  "sourceUrls (source # sources) =
     (case reviewSnippets source of None \<Rightarrow> [] | Some snippets \<Rightarrow> snippetUrls snippets)
     @ sourceUrls sources"
  by (simp_all add: sourceUrls_def)

lemma in_sourceUrls:
  "x \<in> set (sourceUrls sources) \<longleftrightarrow>
     (\<exists>source \<in> set sources. \<exists>snippets. reviewSnippets source = Some snippets
        \<and> (\<exists>snippet \<in> set snippets. \<exists>u. snippet_uri snippet = Some u \<and> u \<noteq> []
              \<and> x = \<lparr> uri = u, title = None \<rparr>))"
proof (induction sources)
  case Nil
  show ?case by (simp add: sourceUrls_simps)
next
  case (Cons source sources)
  show ?case
  proof (cases "reviewSnippets source")
    case None
    then show ?thesis using Cons.IH by (simp add: sourceUrls_simps)
  next
    case (Some snippets)
    then show ?thesis using Cons.IH by (simp add: sourceUrls_simps in_snippetUrls)
  qed
qed

lemma chunkUrls_no_maps: "maps chunk = None \<Longrightarrow> chunkUrls chunk = Inr []"
  by (simp add: chunkUrls_def)

text \<open>With an array of sources and no URI of its own, a chunk gives the snippet links.\<close>

lemma chunkUrls_array_no_uri:
  assumes "maps chunk = Some m" and "\<not> truthy (maps_uri m)"
    and "placeAnswerSources m = Some (SourceArray sources)"
  shows "chunkUrls chunk = Inr (sourceUrls sources)"
  by (simp add: chunkUrls_def assms)

text \<open>With a single object for the sources, a chunk throws, whatever else it holds.\<close>

lemma chunkUrls_object:
  assumes "maps chunk = Some m" and "placeAnswerSources m = Some (SourceObject source)"
  shows "chunkUrls chunk = Inl (JsError notIterableMessage)"
  by (simp add: chunkUrls_def assms)

lemma chunksUrls_throws:
  "chunk \<in> set chunks \<Longrightarrow> chunkUrls chunk = Inl e \<Longrightarrow> \<exists>e'. chunksUrls chunks = Inl e'"
  by (induction chunks) (auto split: sum.splits)

lemma chunksUrls_returns:
  "chunksUrls chunks = Inr us \<Longrightarrow> chunk \<in> set chunks \<Longrightarrow>
   \<exists>vs. chunkUrls chunk = Inr vs \<and> set vs \<subseteq> set us"
proof (induction chunks arbitrary: us)
  case Nil
  then show ?case by simp
next
  case (Cons c chunks)
  from Cons.prems(1) obtain hs ts
    where h: "chunkUrls c = Inr hs" and t: "chunksUrls chunks = Inr ts" and us: "us = hs @ ts"
    by (auto split: sum.splits)
  show ?case
  proof (cases "chunk = c")
    case True
    with h us show ?thesis by simp
  next
    case False
    with Cons.prems(2) have "chunk \<in> set chunks" by simp
    from Cons.IH [OF t this] obtain vs
      where "chunkUrls chunk = Inr vs" and "set vs \<subseteq> set ts"
      by blast
    with us show ?thesis by auto
  qed
qed

lemma result_urls:
  assumes "api (request targetLatLng query) = Inr response"
    and "getPlaceInfo api targetLatLng query = Inr result"
  shows "\<exists>candidates. extractUrls response = Inr candidates
           \<and> urls result = uniqueUrls candidates"
  using assms by (auto simp: getPlaceInfo_def tryBlock_def split: option.splits sum.splits)

text \<open>
  What a chunk gives is in the list returned: the list is the deduplication of what all
  the chunks give, one after the other.
\<close>

lemma chunkUrls_in_result:
  assumes "api (request targetLatLng query) = Inr response"
    and "getPlaceInfo api targetLatLng query = Inr result"
    and "responseChunks response = Some chunks" and "chunk \<in> set chunks"
  shows "\<exists>vs. chunkUrls chunk = Inr vs \<and> uri ` set vs \<subseteq> uri ` set (urls result)"
proof -
  from result_urls [OF assms(1,2)] obtain candidates
    where c: "extractUrls response = Inr candidates" and u: "urls result = uniqueUrls candidates"
    by blast
  from c assms(3) have "chunksUrls chunks = Inr candidates"
    by (simp add: extractUrls_def)
  from chunksUrls_returns [OF this assms(4)] obtain vs
    where v: "chunkUrls chunk = Inr vs" and "set vs \<subseteq> set candidates"
    by blast
  then have "uri ` set vs \<subseteq> uri ` set (urls result)"
    unfolding u set_uniqueUrls_uris by blast
  with v show ?thesis by blast
qed

text \<open>
  A response in which a chunk carries a single object as its sources ends in the generic
  error.
\<close>

lemma getPlaceInfo_object_sources:
  assumes "api (request targetLatLng query) = Inr response"
    and "responseChunks response = Some chunks" and "chunk \<in> set chunks"
    and "maps chunk = Some m" and "placeAnswerSources m = Some (SourceObject source)"
  shows "getPlaceInfo api targetLatLng query = Inl (JsError failedMessage)"
proof -
  from chunksUrls_throws [OF assms(3) chunkUrls_object [OF assms(4,5)]]
  obtain e where "chunksUrls chunks = Inl e"
    by blast
  then have "extractUrls response = Inl e"
    by (simp add: extractUrls_def assms(2))
  then show ?thesis
    by (simp add: getPlaceInfo_def tryBlock_def assms(1) split: option.splits)
qed

lemma trim_Hello: "trim (js ''Hello'') = js ''Hello''"
  by code_simp

section \<open>Properties of getPlaceInfo\<close>

text \<open>
  The \<open>try\<close> block throws exactly when the API call throws, the response has no text, or
  the extraction of the links throws.
\<close>

lemma tryBlock_throws_iff:
  "(\<exists>e. tryBlock api targetLatLng query = Inl e) \<longleftrightarrow>
   (\<exists>e. api (request targetLatLng query) = Inl e)
   \<or> (\<exists>r. api (request targetLatLng query) = Inr r
          \<and> (response_text r = None \<or> (\<exists>e. extractUrls r = Inl e)))"
  by (auto simp: tryBlock_def split: sum.splits option.splits)

text \<open>
  C8. Whatever the coordinate, the prompt and the answer of the API, a result that
  \<open>getPlaceInfo\<close> returns has an empty \<open>places\<close> list.
\<close>

theorem getPlaceInfo_places_empty:
  "getPlaceInfo api targetLatLng query = Inr result \<Longrightarrow> places result = []"
  by (auto simp: getPlaceInfo_def tryBlock_def split: sum.splits option.splits)

theorem getPlaceInfo_places_empty_witness:
  "getPlaceInfo (answering \<lparr> response_text = Some (js ''Hello''), candidates = None \<rparr>)
     defaultKottayamCoords (js ''cafes'')
   = Inr \<lparr> summary = js ''Hello'', places = [], urls = [] \<rparr>
   \<and> places \<lparr> summary = js ''Hello'', places = [], urls = [] \<rparr> = []"
proof -
  note tr = trim_Hello
  have h: "getPlaceInfo (answering \<lparr> response_text = Some (js ''Hello''), candidates = None \<rparr>)
             defaultKottayamCoords (js ''cafes'')
           = Inr \<lparr> summary = js ''Hello'', places = [], urls = [] \<rparr>"
    by (simp add: getPlaceInfo_def tryBlock_def answering_def extractUrls_def
        responseChunks_def uniqueUrls_Nil tr)
  from getPlaceInfo_places_empty [OF h] h show ?thesis by simp
qed

text \<open>
  C6. Whenever the \<open>try\<close> block of \<open>getPlaceInfo\<close> throws, be it the exception \<open>e\<close> of the
  API call or the one of processing the response, \<open>getPlaceInfo\<close> throws one and the same
  \<open>Error\<close>, whose message is the fixed text \<open>failedMessage\<close>: nothing of \<open>e\<close> is in it.
\<close>

theorem getPlaceInfo_generic_error:
  "tryBlock api targetLatLng query = Inl e \<Longrightarrow>
   getPlaceInfo api targetLatLng query = Inl (JsError failedMessage)"
  by (simp add: getPlaceInfo_def)

theorem getPlaceInfo_generic_error_witness:
  "tryBlock (throwing (JsError (js ''503 Service Unavailable'')))
     defaultKottayamCoords (js ''cafes'')
     = Inl (JsError (js ''503 Service Unavailable''))
   \<and> getPlaceInfo (throwing (JsError (js ''503 Service Unavailable'')))
       defaultKottayamCoords (js ''cafes'')
     = Inl (JsError failedMessage)
   \<and> \<not> sublist (js ''503 Service Unavailable'') failedMessage"
proof -
  have n: "\<not> sublist (js ''503 Service Unavailable'') failedMessage"
    by code_simp
  have h: "tryBlock (throwing (JsError (js ''503 Service Unavailable'')))
             defaultKottayamCoords (js ''cafes'')
           = Inl (JsError (js ''503 Service Unavailable''))"
    by (simp add: tryBlock_def throwing_def)
  from getPlaceInfo_generic_error [OF h] h n show ?thesis by simp
qed

text \<open>
  C7, as the claim states it, fails: a response without grounding chunks that has no text
  either makes \<open>response.text.trim()\<close> throw, and \<open>getPlaceInfo\<close> throws the generic error
  instead of returning a summary.
\<close>

theorem getPlaceInfo_no_text_counterexample:
  "responseChunks \<lparr> response_text = None, candidates = None \<rparr> = None
   \<and> getPlaceInfo (answering \<lparr> response_text = None, candidates = None \<rparr>)
        defaultKottayamCoords (js ''cafes'') = Inl (JsError failedMessage)"
  by (simp add: responseChunks_def getPlaceInfo_def tryBlock_def answering_def)

text \<open>
  C7, amended. For every response that has a text body and no grounding chunks (the list
  is absent or empty), \<open>getPlaceInfo\<close> returns an empty URL list and the summary, which is
  the body with leading and trailing whitespace trimmed.
\<close>

theorem getPlaceInfo_no_chunks:
  "api (request targetLatLng query) = Inr response \<Longrightarrow>
   response_text response = Some body \<Longrightarrow>
   responseChunks response = None \<or> responseChunks response = Some [] \<Longrightarrow>
   getPlaceInfo api targetLatLng query
     = Inr \<lparr> summary = trim body, places = [], urls = [] \<rparr>"
  by (auto simp: getPlaceInfo_def tryBlock_def extractUrls_def uniqueUrls_Nil)

theorem getPlaceInfo_no_chunks_witness:
  "answering \<lparr> response_text = Some (js '' Hello ''),
               candidates = Some [\<lparr> groundingMetadata = Some \<lparr> groundingChunks = Some [] \<rparr> \<rparr>] \<rparr>
     (request defaultKottayamCoords (js ''cafes''))
   = Inr \<lparr> response_text = Some (js '' Hello ''),
           candidates = Some [\<lparr> groundingMetadata = Some \<lparr> groundingChunks = Some [] \<rparr> \<rparr>] \<rparr>
   \<and> responseChunks \<lparr> response_text = Some (js '' Hello ''),
         candidates = Some [\<lparr> groundingMetadata = Some \<lparr> groundingChunks = Some [] \<rparr> \<rparr>] \<rparr>
       = Some []
   \<and> getPlaceInfo
        (answering \<lparr> response_text = Some (js '' Hello ''),
           candidates = Some [\<lparr> groundingMetadata = Some \<lparr> groundingChunks = Some [] \<rparr> \<rparr>] \<rparr>)
        defaultKottayamCoords (js ''cafes'')
     = Inr \<lparr> summary = js ''Hello'', places = [], urls = [] \<rparr>"
proof -
  let ?r = "\<lparr> response_text = Some (js '' Hello ''),
             candidates = Some [\<lparr> groundingMetadata = Some \<lparr> groundingChunks = Some [] \<rparr> \<rparr>] \<rparr>"
  have a: "answering ?r (request defaultKottayamCoords (js ''cafes'')) = Inr ?r"
    by (simp add: answering_def)
  have b: "response_text ?r = Some (js '' Hello '')"
    by simp
  have c: "responseChunks ?r = Some []"
    by (simp add: responseChunks_def)
  have tr: "trim (js '' Hello '') = js ''Hello''"
    by code_simp
  have d: "responseChunks ?r = None \<or> responseChunks ?r = Some []"
    using c by simp
  from getPlaceInfo_no_chunks [of "answering ?r" defaultKottayamCoords "js ''cafes''" ?r
      "js '' Hello ''", OF a b d] a c tr
  show ?thesis by simp
qed

text \<open>
  C5, as the claim states it, fails on prompts that are not empty but start or end with
  whitespace: for a blank prompt the default is sent, and a padded prompt is sent without
  its padding, so in neither case the given prompt.
\<close>

theorem padded_query_counterexample:
  "js '' '' \<noteq> []
   \<and> contents (request defaultKottayamCoords (js '' '')) = defaultQuery
   \<and> defaultQuery \<noteq> js '' ''
   \<and> js '' cafes '' \<noteq> []
   \<and> contents (request defaultKottayamCoords (js '' cafes '')) = js ''cafes''
   \<and> js ''cafes'' \<noteq> js '' cafes ''"
proof -
  have "trim (js '' '') = []" and "trim (js '' cafes '') = js ''cafes''"
    by code_simp+
  moreover have "defaultQuery \<noteq> js '' ''" and "js ''cafes'' \<noteq> js '' cafes ''"
    by code_simp+
  moreover have "js '' '' \<noteq> []" and "js '' cafes '' \<noteq> []" and "js ''cafes'' \<noteq> []"
    by (simp_all add: js_def)
  ultimately show ?thesis
    by (simp add: request_def effectiveQuery_def)
qed

text \<open>
  C5, amended. The query in the request is the default prompt when the given prompt is
  empty after trimming whitespace, and the trimmed prompt otherwise; and this request is
  the only one whose answer \<open>getPlaceInfo\<close> depends on.
\<close>

theorem getPlaceInfo_query_sent:
  "contents (request targetLatLng query) = (if trim query = [] then defaultQuery else trim query)
   \<and> (api (request targetLatLng query) = api' (request targetLatLng query) \<longrightarrow>
        getPlaceInfo api targetLatLng query = getPlaceInfo api' targetLatLng query)"
  by (simp add: request_def effectiveQuery_def getPlaceInfo_def tryBlock_def)

theorem getPlaceInfo_query_sent_witness:
  "contents (request defaultKottayamCoords (js '' cafes '')) = js ''cafes''
   \<and> contents (request defaultKottayamCoords []) = defaultQuery
   \<and> throwing NonError (request defaultKottayamCoords []) =
       throwing NonError (request defaultKottayamCoords [])
   \<and> getPlaceInfo (throwing NonError) defaultKottayamCoords [] =
       getPlaceInfo (throwing NonError) defaultKottayamCoords []"
proof -
  have t: "trim (js '' cafes '') = js ''cafes''" "trim [] = []"
    by code_simp+
  have n: "js ''cafes'' \<noteq> []"
    by (simp add: js_def)
  from getPlaceInfo_query_sent [of defaultKottayamCoords "js '' cafes ''"]
    getPlaceInfo_query_sent [of defaultKottayamCoords "[]" "throwing NonError" "throwing NonError"]
  show ?thesis
    by (simp add: t n)
qed

text \<open>
  C1, as the claim states it, fails on the title: when a URI occurs twice, the entry that
  is kept is the one of the last occurrence. Here the first chunk has URI \<open>u\<close> and title
  \<open>A\<close>, the second has URI \<open>u\<close> and title \<open>B\<close>, and the result lists \<open>u\<close> with title \<open>B\<close>.
\<close>

theorem duplicate_uri_counterexample:
  "extractUrls
     \<lparr> response_text = Some (js ''Hello''),
       candidates = Some [\<lparr> groundingMetadata = Some \<lparr> groundingChunks = Some
         [ \<lparr> maps = Some \<lparr> maps_uri = Some (js ''u''), maps_title = Some (js ''A''),
                            placeAnswerSources = None \<rparr> \<rparr>,
           \<lparr> maps = Some \<lparr> maps_uri = Some (js ''u''), maps_title = Some (js ''B''),
                            placeAnswerSources = None \<rparr> \<rparr> ] \<rparr> \<rparr>] \<rparr>
   = Inr [ \<lparr> uri = js ''u'', title = Some (js ''A'') \<rparr>,
           \<lparr> uri = js ''u'', title = Some (js ''B'') \<rparr> ]
   \<and> getPlaceInfo (answering
     \<lparr> response_text = Some (js ''Hello''),
       candidates = Some [\<lparr> groundingMetadata = Some \<lparr> groundingChunks = Some
         [ \<lparr> maps = Some \<lparr> maps_uri = Some (js ''u''), maps_title = Some (js ''A''),
                            placeAnswerSources = None \<rparr> \<rparr>,
           \<lparr> maps = Some \<lparr> maps_uri = Some (js ''u''), maps_title = Some (js ''B''),
                            placeAnswerSources = None \<rparr> \<rparr> ] \<rparr> \<rparr>] \<rparr>)
       defaultKottayamCoords (js ''cafes'')
   = Inr \<lparr> summary = js ''Hello'', places = [],
           urls = [ \<lparr> uri = js ''u'', title = Some (js ''B'') \<rparr> ] \<rparr>
   \<and> js ''A'' \<noteq> js ''B''"
proof -
  have ne: "js ''A'' \<noteq> js ''B''" "js ''u'' \<noteq> []"
    by (simp_all add: js_def)
  show ?thesis
    by (simp add: getPlaceInfo_def tryBlock_def answering_def extractUrls_def responseChunks_def
        chunkUrls_def uniqueUrls_def mapValues_def newMap_def trim_Hello ne)
qed

text \<open>
  C1, amended. The URL list that \<open>getPlaceInfo\<close> returns has every distinct URI of the
  candidate links exactly once, in the order of first occurrence, and the entry listed for
  a URI, so its title too, is the last candidate link with that URI.
\<close>

theorem getPlaceInfo_urls_deduplicated:
  "api (request targetLatLng query) = Inr response \<Longrightarrow>
   getPlaceInfo api targetLatLng query = Inr result \<Longrightarrow>
   \<exists>candidates. extractUrls response = Inr candidates
     \<and> distinct (map uri (urls result))
     \<and> map uri (urls result) = firstSeen (map uri candidates)
     \<and> (\<forall>item \<in> set (urls result).
           item = last (filter (\<lambda>c. uri c = uri item) candidates))"
proof -
  assume a: "api (request targetLatLng query) = Inr response"
    and r: "getPlaceInfo api targetLatLng query = Inr result"
  from result_urls [OF a r] obtain candidates
    where c: "extractUrls response = Inr candidates" and u: "urls result = uniqueUrls candidates"
    by blast
  have "distinct (map uri (urls result))"
    and "map uri (urls result) = firstSeen (map uri candidates)"
    and "\<forall>item \<in> set (urls result). item = last (filter (\<lambda>c. uri c = uri item) candidates)"
    unfolding u using uniqueUrls_last
    by (simp_all add: uniqueUrls_uris distinct_firstSeen)
  with c show ?thesis by blast
qed

theorem getPlaceInfo_urls_deduplicated_witness:
  "answering duplicateResponse (request defaultKottayamCoords (js ''cafes''))
     = Inr duplicateResponse
   \<and> getPlaceInfo (answering duplicateResponse) defaultKottayamCoords (js ''cafes'')
     = Inr \<lparr> summary = js ''Hello'', places = [],
             urls = [ \<lparr> uri = js ''u'', title = Some (js ''B'') \<rparr> ] \<rparr>
   \<and> extractUrls duplicateResponse
     = Inr [ \<lparr> uri = js ''u'', title = Some (js ''A'') \<rparr>,
             \<lparr> uri = js ''u'', title = Some (js ''B'') \<rparr> ]
   \<and> firstSeen (map uri [ \<lparr> uri = js ''u'', title = Some (js ''A'') \<rparr>,
                           \<lparr> uri = js ''u'', title = Some (js ''B'') \<rparr> ]) = [js ''u'']
   \<and> last (filter (\<lambda>c. uri c = js ''u'')
             [ \<lparr> uri = js ''u'', title = Some (js ''A'') \<rparr>,
               \<lparr> uri = js ''u'', title = Some (js ''B'') \<rparr> ])
     = \<lparr> uri = js ''u'', title = Some (js ''B'') \<rparr>"
proof -
  let ?res = "\<lparr> summary = js ''Hello'', places = [],
                urls = [ \<lparr> uri = js ''u'', title = Some (js ''B'') \<rparr> ] \<rparr>"
  let ?cs = "[ \<lparr> uri = js ''u'', title = Some (js ''A'') \<rparr>,
               \<lparr> uri = js ''u'', title = Some (js ''B'') \<rparr> ]"
  have ne: "js ''A'' \<noteq> js ''B''" "js ''u'' \<noteq> []"
    by (simp_all add: js_def)
  have a: "answering duplicateResponse (request defaultKottayamCoords (js ''cafes''))
             = Inr duplicateResponse"
    by (simp add: answering_def)
  have e: "extractUrls duplicateResponse = Inr ?cs"
    by (simp add: extractUrls_def responseChunks_def chunkUrls_def ne duplicateResponse_def)
  have t: "response_text duplicateResponse = Some (js ''Hello'')"
    by (simp add: duplicateResponse_def)
  have r: "getPlaceInfo (answering duplicateResponse) defaultKottayamCoords (js ''cafes'')
             = Inr ?res"
    by (simp add: getPlaceInfo_def tryBlock_def answering_def e t
        uniqueUrls_def mapValues_def newMap_def trim_Hello)
  from getPlaceInfo_urls_deduplicated [OF a r] obtain candidates
    where c: "extractUrls duplicateResponse = Inr candidates"
      and f: "map uri (urls ?res) = firstSeen (map uri candidates)"
      and l: "\<forall>item \<in> set (urls ?res).
                item = last (filter (\<lambda>c. uri c = uri item) candidates)"
    by blast
  from c e have k: "candidates = ?cs"
    by simp
  from f have "firstSeen (map uri ?cs) = [js ''u'']"
    unfolding k by simp
  moreover from l have "last (filter (\<lambda>c. uri c = js ''u'') ?cs)
                          = \<lparr> uri = js ''u'', title = Some (js ''B'') \<rparr>"
    unfolding k by simp
  ultimately show ?thesis
    using a r e by simp
qed

text \<open>
  C10. The claim asks that the URIs under the review snippets of a chunk's place answer
  sources be collected. The code does not collect them when the place answer sources are
  a single object: here the only chunk has a \<open>maps\<close> annotation with a title and no URI,
  and its place answer sources hold one review snippet with the URI \<open>r1\<close>; the loop over
  the sources throws, and \<open>getPlaceInfo\<close> ends in the generic error instead of returning
  \<open>r1\<close>.
\<close>

theorem getPlaceInfo_object_sources_fails:
  "chunkUrls
     \<lparr> maps = Some \<lparr> maps_uri = None, maps_title = Some (js ''Cafe''),
                      placeAnswerSources = Some (SourceObject
                        \<lparr> reviewSnippets = Some [\<lparr> snippet_uri = Some (js ''r1'') \<rparr>] \<rparr>) \<rparr> \<rparr>
     = Inl (JsError notIterableMessage)
   \<and> getPlaceInfo (answering
        \<lparr> response_text = Some (js ''Hello''),
          candidates = Some [\<lparr> groundingMetadata = Some \<lparr> groundingChunks = Some
            [ \<lparr> maps = Some \<lparr> maps_uri = None, maps_title = Some (js ''Cafe''),
                               placeAnswerSources = Some (SourceObject
                                 \<lparr> reviewSnippets = Some [\<lparr> snippet_uri = Some (js ''r1'') \<rparr>] \<rparr>) \<rparr> \<rparr>
            ] \<rparr> \<rparr>] \<rparr>)
        defaultKottayamCoords (js ''cafes'')
     = Inl (JsError failedMessage)"
  by (simp add: getPlaceInfo_def tryBlock_def answering_def extractUrls_def responseChunks_def
      chunkUrls_def)

section \<open>Facts about the composed query\<close>

lemma filterOptions_cases:
  assumes "(fc, l) \<in> set filterOptions"
  obtains "fc = js ''all''" "l = js ''All Categories''"
  | "fc = js ''companies_shops''" "l = js ''Companies & Shops''"
  | "fc = js ''restaurants''" "l = js ''Restaurants''"
  | "fc = js ''attractions''" "l = js ''Attractions & Landmarks''"
  | "fc = js ''hotels''" "l = js ''Hotels & Accommodations''"
  | "fc = js ''services''" "l = js ''Services (e.g., banks, hospitals)''"
  using assms unfolding filterOptions_def by auto

lemma labelText_values:
  "labelText (js ''all'') = toLowerCase (js ''All Categories'')"
  "labelText (js ''companies_shops'') = toLowerCase (js ''Companies & Shops'')"
  "labelText (js ''restaurants'') = toLowerCase (js ''Restaurants'')"
  "labelText (js ''attractions'') = toLowerCase (js ''Attractions & Landmarks'')"
  "labelText (js ''hotels'') = toLowerCase (js ''Hotels & Accommodations'')"
  "labelText (js ''services'') = toLowerCase (js ''Services (e.g., banks, hospitals)'')"
  by code_simp+

text \<open>The label that \<open>find\<close> returns for the value of an option is the label of that option.\<close>

lemma labelText_option: "(fc, l) \<in> set filterOptions \<Longrightarrow> labelText fc = toLowerCase l"
  by (erule filterOptions_cases) (simp_all only: labelText_values)

text \<open>The query for a specific category, cut at its double quotes.\<close>

lemma composeQuery_specific_text:
  assumes "fc \<noteq> js ''all''" and "trim p \<noteq> []"
  shows "composeQuery ctx fc p =
      (queryHead @ js ''The user is looking for: '') @ 0x22 # (trim p @ 0x22 #
         ((js ''.'' @ js '' Specifically focus on results in the '') @ 0x22 #
            (labelText fc @ 0x22 #
               (js '' category.'' @ js '' Provide details for places in ''
                  @ currentAreaName ctx @ js ''.''))))"
  using assms by (simp add: composeQuery_def Let_def dquote_def)

lemma composeQuery_specific_blank:
  assumes "fc \<noteq> js ''all''" and "trim p = []"
  shows "composeQuery ctx fc p =
      (queryHead @ js '' Specifically focus on results in the '') @ 0x22 #
         (labelText fc @ 0x22 #
            (js '' category.'' @ js '' Provide details for places in ''
               @ currentAreaName ctx @ js ''.''))"
  using assms by (simp add: composeQuery_def Let_def dquote_def)

lemma label_in_specific:
  assumes "fc \<noteq> js ''all''"
  shows "sublist (labelText fc) (composeQuery ctx fc p)"
proof (cases "trim p = []")
  case True
  show ?thesis
    unfolding composeQuery_specific_blank [OF assms True]
    by (rule sublist_appendL, rule sublist_ConsR, rule sublist_append_rightI)
next
  case False
  show ?thesis
    unfolding composeQuery_specific_text [OF assms False]
    by (rule sublist_appendL, rule sublist_ConsR, rule sublist_appendL, rule sublist_ConsR,
        rule sublist_appendL, rule sublist_ConsR, rule sublist_append_rightI)
qed

lemma generic_in_all: "sublist genericClause (composeQuery ctx (js ''all'') p)"
proof -
  have "composeQuery ctx (js ''all'') p =
          (if trim p \<noteq> []
           then queryHead @ js ''The user is looking for: '' @ dquote @ trim p @ dquote @ js ''.''
           else queryHead)
          @ (genericClause @ js '' Provide details for places in '' @ currentAreaName ctx @ js ''.'')"
    by (simp add: composeQuery_def Let_def)
  then show ?thesis
    by (simp only: sublist_appendL sublist_append_rightI)
qed

lemma text_in_query:
  assumes "trim p \<noteq> []"
  shows "sublist (js ''The user is looking for: '' @ dquote @ trim p @ dquote @ js ''.'')
           (composeQuery ctx fc p)"
proof -
  let ?X = "js ''The user is looking for: '' @ dquote @ trim p @ dquote @ js ''.''"
  have "composeQuery ctx fc p =
          (queryHead @ ?X)
          @ ((if fc \<noteq> js ''all''
              then js '' Specifically focus on results in the '' @ dquote @ labelText fc
                     @ dquote @ js '' category.''
              else genericClause)
             @ js '' Provide details for places in '' @ currentAreaName ctx @ js ''.'')"
    using assms by (simp add: composeQuery_def Let_def)
  then show ?thesis
    by (simp only: sublist_appendR sublist_append_leftI)
qed

lemma trimmed_in_query:
  assumes "trim p \<noteq> []"
  shows "sublist (trim p) (composeQuery ctx fc p)"
proof -
  have "sublist (trim p) (js ''The user is looking for: '' @ dquote @ trim p @ dquote @ js ''.'')"
    by (rule sublist_appendL, rule sublist_appendL, rule sublist_append_rightI)
  then show ?thesis
    using text_in_query [OF assms] by (rule sublist_order.order.trans)
qed

text \<open>A text that is blank after trimming leaves no trace in the query.\<close>

lemma composeQuery_blank:
  assumes "trim p = []"
  shows "composeQuery ctx fc p =
           queryHead
           @ (if fc \<noteq> js ''all''
              then js '' Specifically focus on results in the '' @ dquote @ labelText fc
                     @ dquote @ js '' category.''
              else genericClause)
           @ js '' Provide details for places in '' @ currentAreaName ctx @ js ''.''"
  using assms by (simp add: composeQuery_def Let_def)

text \<open>
  The phrase of the generic clause has no double quote, and it occurs in none of the fixed
  parts of the query for a specific category.
\<close>

lemma phrase_no_quote: "0x22 \<notin> set (js ''various types of places'')"
  by code_simp

lemma phrase_not_in_head:
  "\<not> sublist (js ''various types of places'') (queryHead @ js ''The user is looking for: '')"
  "\<not> sublist (js ''various types of places'')
       (queryHead @ js '' Specifically focus on results in the '')"
  "\<not> sublist (js ''various types of places'')
       (js ''.'' @ js '' Specifically focus on results in the '')"
  by code_simp+

lemma phrase_not_in_tail:
  "\<not> sublist (js ''various types of places'')
       (js '' category.'' @ js '' Provide details for places in '' @ currentAreaName ctx @ js ''.'')"
proof (cases ctx)
  case kottayam
  have "\<not> sublist (js ''various types of places'')
       (js '' category.'' @ js '' Provide details for places in '' @ js ''Kottayam city''
          @ js ''.'')"
    by code_simp
  with kottayam show ?thesis by (simp add: currentAreaName_def)
next
  case currentLocation
  have "\<not> sublist (js ''various types of places'')
       (js '' category.'' @ js '' Provide details for places in ''
          @ js ''this area near my current location'' @ js ''.'')"
    by code_simp
  with currentLocation show ?thesis by (simp add: currentAreaName_def)
qed

lemma phrase_not_in_labels:
  "\<not> sublist (js ''various types of places'') (toLowerCase (js ''Companies & Shops''))"
  "\<not> sublist (js ''various types of places'') (toLowerCase (js ''Restaurants''))"
  "\<not> sublist (js ''various types of places'') (toLowerCase (js ''Attractions & Landmarks''))"
  "\<not> sublist (js ''various types of places'') (toLowerCase (js ''Hotels & Accommodations''))"
  "\<not> sublist (js ''various types of places'')
       (toLowerCase (js ''Services (e.g., banks, hospitals)''))"
  by code_simp+

lemma phrase_not_in_label:
  assumes "(fc, l) \<in> set filterOptions" and "fc \<noteq> js ''all''"
  shows "\<not> sublist (js ''various types of places'') (labelText fc)"
  using assms(1)
proof (cases rule: filterOptions_cases)
  case 1
  with assms(2) show ?thesis by simp
qed (simp_all only: labelText_values phrase_not_in_labels not_False_eq_True)

text \<open>So the phrase is in the query for a specific category exactly when the user wrote it.\<close>

lemma phrase_in_specific:
  assumes "(fc, l) \<in> set filterOptions" and "fc \<noteq> js ''all''"
  shows "sublist (js ''various types of places'') (composeQuery ctx fc p)
         \<longleftrightarrow> sublist (js ''various types of places'') (trim p)"
proof (cases "trim p = []")
  case True
  have "js ''various types of places'' \<noteq> []"
    by (simp add: js_def)
  then have "\<not> sublist (js ''various types of places'') (trim p)"
    by (simp add: True)
  moreover have "\<not> sublist (js ''various types of places'') (composeQuery ctx fc p)"
    by (simp only: composeQuery_specific_blank [OF assms(2) True]
        sublist_split_at [OF phrase_no_quote]
        phrase_not_in_head phrase_not_in_tail phrase_not_in_label [OF assms] simp_thms)
  ultimately show ?thesis by simp
next
  case False
  show ?thesis
    by (simp only: composeQuery_specific_text [OF assms(2) False]
        sublist_split_at [OF phrase_no_quote]
        phrase_not_in_head phrase_not_in_tail phrase_not_in_label [OF assms] simp_thms)
qed

text \<open>Every call that \<open>handleSearch\<close> makes carries the composed query.\<close>

lemma handleSearch_calls:
  "(coords, q) \<in> set (fst (handleSearch svc s)) \<Longrightarrow>
   q = composeQuery (searchContext s) (filterCategory s) (prompt s)"
  by (auto simp: handleSearch_def Let_def split: sum.splits option.splits prod.splits)

lemma handleSearch_kottayam_calls:
  "searchContext s = kottayam \<Longrightarrow>
   fst (handleSearch svc s)
     = [(defaultKottayamCoords, composeQuery kottayam (filterCategory s) (prompt s))]"
  by (simp add: handleSearch_def target_def Let_def)

section \<open>Properties of handleSearch\<close>

text \<open>
  C4. If the search context is the current location and the device coordinate has not
  been determined (the flag is unset, or no coordinate is stored), \<open>handleSearch\<close> makes no
  call to \<open>getPlaceInfo\<close>, whatever service it is given, and sets the error message of the
  refusal.
\<close>

theorem handleSearch_refusal:
  "searchContext s = currentLocation \<Longrightarrow>
   \<not> (actualUserLocationDetermined s \<and> userLocation s \<noteq> None) \<Longrightarrow>
   fst (handleSearch svc s) = [] \<and> error (snd (handleSearch svc s)) = Some undeterminedMessage"
  by (auto simp: handleSearch_def target_def)

theorem handleSearch_refusal_witness:
  "searchContext (initialState\<lparr> searchContext := currentLocation \<rparr>) = currentLocation
   \<and> \<not> (actualUserLocationDetermined (initialState\<lparr> searchContext := currentLocation \<rparr>)
          \<and> userLocation (initialState\<lparr> searchContext := currentLocation \<rparr>) \<noteq> None)
   \<and> fst (handleSearch (getPlaceInfo (throwing NonError))
              (initialState\<lparr> searchContext := currentLocation \<rparr>)) = []
   \<and> error (snd (handleSearch (getPlaceInfo (throwing NonError))
              (initialState\<lparr> searchContext := currentLocation \<rparr>))) = Some undeterminedMessage"
proof -
  have a: "searchContext (initialState\<lparr> searchContext := currentLocation \<rparr>) = currentLocation"
    by simp
  have b: "\<not> (actualUserLocationDetermined (initialState\<lparr> searchContext := currentLocation \<rparr>)
          \<and> userLocation (initialState\<lparr> searchContext := currentLocation \<rparr>) \<noteq> None)"
    by (simp add: initialState_def)
  from handleSearch_refusal [OF a b, of "getPlaceInfo (throwing NonError)"] a b
  show ?thesis by simp
qed

text \<open>
  C9. When \<open>handleSearch\<close> refuses the search because the current location is undetermined,
  the state after it is the state before it with the error message set: the summary, the
  URL list and the loading flag, like every other field, keep their values.
\<close>

theorem handleSearch_refusal_state:
  "searchContext s = currentLocation \<Longrightarrow>
   \<not> (actualUserLocationDetermined s \<and> userLocation s \<noteq> None) \<Longrightarrow>
   snd (handleSearch svc s) = s\<lparr> error := Some undeterminedMessage \<rparr>
   \<and> generalSummary (snd (handleSearch svc s)) = generalSummary s
   \<and> responseUrls (snd (handleSearch svc s)) = responseUrls s
   \<and> loading (snd (handleSearch svc s)) = loading s"
  by (auto simp: handleSearch_def target_def)

theorem handleSearch_refusal_state_witness:
  "searchContext
     (initialState\<lparr> searchContext := currentLocation, generalSummary := Some (js ''Old'') \<rparr>)
     = currentLocation
   \<and> \<not> (actualUserLocationDetermined
          (initialState\<lparr> searchContext := currentLocation, generalSummary := Some (js ''Old'') \<rparr>)
        \<and> userLocation
          (initialState\<lparr> searchContext := currentLocation, generalSummary := Some (js ''Old'') \<rparr>)
          \<noteq> None)
   \<and> snd (handleSearch (getPlaceInfo (throwing NonError))
       (initialState\<lparr> searchContext := currentLocation, generalSummary := Some (js ''Old'') \<rparr>))
     = initialState\<lparr> searchContext := currentLocation, generalSummary := Some (js ''Old''),
                     error := Some undeterminedMessage \<rparr>"
proof -
  let ?s = "initialState\<lparr> searchContext := currentLocation, generalSummary := Some (js ''Old'') \<rparr>"
  have a: "searchContext ?s = currentLocation"
    by simp
  have b: "\<not> (actualUserLocationDetermined ?s \<and> userLocation ?s \<noteq> None)"
    by (simp add: initialState_def)
  from handleSearch_refusal_state [OF a b, of "getPlaceInfo (throwing NonError)"] a b
  show ?thesis by simp
qed

text \<open>
  C2, as the claim states it, fails on a text that ends (or starts) with whitespace: the
  text \<open>pizza\<close> followed by a space is not empty, and the composed query has \<open>pizza\<close>
  between double quotes, without the space.
\<close>

theorem trailing_space_counterexample:
  "js ''pizza '' \<noteq> []
   \<and> fst (handleSearch (getPlaceInfo (throwing NonError)) (initialState\<lparr> prompt := js ''pizza '' \<rparr>))
     = [(defaultKottayamCoords, composeQuery kottayam (js ''all'') (js ''pizza ''))]
   \<and> \<not> sublist (js ''pizza '') (composeQuery kottayam (js ''all'') (js ''pizza ''))"
proof -
  have "js ''pizza '' \<noteq> []"
    by (simp add: js_def)
  moreover have "\<not> sublist (js ''pizza '') (composeQuery kottayam (js ''all'') (js ''pizza ''))"
    by code_simp
  moreover have "fst (handleSearch (getPlaceInfo (throwing NonError))
                   (initialState\<lparr> prompt := js ''pizza '' \<rparr>))
     = [(defaultKottayamCoords, composeQuery kottayam (js ''all'') (js ''pizza ''))]"
    by (simp add: handleSearch_kottayam_calls initialState_def)
  ultimately show ?thesis by simp
qed

text \<open>
  C2, amended. Let \<open>handleSearch\<close> call the service with query \<open>q\<close>. If the free text is
  not empty after trimming whitespace, \<open>q\<close> contains the trimmed text, between double
  quotes in the sentence that introduces it. If the free text is empty after trimming, it
  adds nothing: \<open>q\<close> is the head of the query followed at once by the category clause and
  the location clause.
\<close>

theorem handleSearch_query_has_text:
  "(coords, q) \<in> set (fst (handleSearch svc s)) \<Longrightarrow>
   (trim (prompt s) \<noteq> [] \<longrightarrow>
      sublist (js ''The user is looking for: '' @ dquote @ trim (prompt s) @ dquote @ js ''.'') q
      \<and> sublist (trim (prompt s)) q)
   \<and> (trim (prompt s) = [] \<longrightarrow>
      q = queryHead
          @ (if filterCategory s \<noteq> js ''all''
             then js '' Specifically focus on results in the '' @ dquote
                    @ labelText (filterCategory s) @ dquote @ js '' category.''
             else genericClause)
          @ js '' Provide details for places in '' @ currentAreaName (searchContext s)
          @ js ''.'')"
proof -
  assume c: "(coords, q) \<in> set (fst (handleSearch svc s))"
  show ?thesis
    unfolding handleSearch_calls [OF c]
    using text_in_query trimmed_in_query composeQuery_blank by blast
qed

theorem handleSearch_query_has_text_witness:
  "trim (js ''pizza '') = js ''pizza''
   \<and> js ''pizza'' \<noteq> []
   \<and> fst (handleSearch (getPlaceInfo (throwing NonError)) (initialState\<lparr> prompt := js ''pizza '' \<rparr>))
     = [(defaultKottayamCoords, composeQuery kottayam (js ''all'') (js ''pizza ''))]
   \<and> sublist (js ''The user is looking for: '' @ dquote @ js ''pizza'' @ dquote @ js ''.'')
       (composeQuery kottayam (js ''all'') (js ''pizza ''))
   \<and> sublist (js ''pizza'') (composeQuery kottayam (js ''all'') (js ''pizza ''))
   \<and> trim (js '' '') = []
   \<and> fst (handleSearch (getPlaceInfo (throwing NonError)) (initialState\<lparr> prompt := js '' '' \<rparr>))
     = [(defaultKottayamCoords, composeQuery kottayam (js ''all'') (js '' ''))]
   \<and> composeQuery kottayam (js ''all'') (js '' '')
     = queryHead @ genericClause @ js '' Provide details for places in '' @ js ''Kottayam city''
       @ js ''.''"
proof -
  let ?svc = "getPlaceInfo (throwing NonError)"
  let ?s = "initialState\<lparr> prompt := js ''pizza '' \<rparr>"
  let ?q = "composeQuery kottayam (js ''all'') (js ''pizza '')"
  let ?b = "initialState\<lparr> prompt := js '' '' \<rparr>"
  let ?r = "composeQuery kottayam (js ''all'') (js '' '')"
  have tr: "trim (js ''pizza '') = js ''pizza''" and tb: "trim (js '' '') = []"
    by code_simp+
  have ne: "js ''pizza'' \<noteq> []"
    by (simp add: js_def)
  have f: "fst (handleSearch ?svc ?s) = [(defaultKottayamCoords, ?q)]"
    by (simp add: handleSearch_kottayam_calls initialState_def)
  then have c: "(defaultKottayamCoords, ?q) \<in> set (fst (handleSearch ?svc ?s))"
    by simp
  have g: "fst (handleSearch ?svc ?b) = [(defaultKottayamCoords, ?r)]"
    by (simp add: handleSearch_kottayam_calls initialState_def)
  then have d: "(defaultKottayamCoords, ?r) \<in> set (fst (handleSearch ?svc ?b))"
    by simp
  have "sublist (js ''The user is looking for: '' @ dquote @ js ''pizza'' @ dquote @ js ''.'') ?q
        \<and> sublist (js ''pizza'') ?q"
    using handleSearch_query_has_text [OF c] by (simp add: tr ne)
  moreover have "?r = queryHead @ genericClause @ js '' Provide details for places in ''
                   @ js ''Kottayam city'' @ js ''.''"
    using handleSearch_query_has_text [OF d]
    by (simp add: tb initialState_def currentAreaName_def)
  ultimately show ?thesis
    using tr tb ne f g by simp
qed

text \<open>
  C3, as the claim states it, fails where the user's own text holds the generic clause:
  with the filter \<open>restaurants\<close> the composed query then contains the clause, and the
  phrase \<open>various types of places\<close> with it.
\<close>

theorem user_text_clause_counterexample:
  "(js ''restaurants'', js ''Restaurants'') \<in> set filterOptions
   \<and> js ''restaurants'' \<noteq> js ''all''
   \<and> fst (handleSearch (getPlaceInfo (throwing NonError))
          (initialState\<lparr> filterCategory := js ''restaurants'',
             prompt := js ''x Include various types of places such as companies, shops, restaurants, attractions, and services.'' \<rparr>))
     = [(defaultKottayamCoords,
         composeQuery kottayam (js ''restaurants'')
           (js ''x Include various types of places such as companies, shops, restaurants, attractions, and services.''))]
   \<and> sublist genericClause
       (composeQuery kottayam (js ''restaurants'')
          (js ''x Include various types of places such as companies, shops, restaurants, attractions, and services.''))
   \<and> sublist (js ''various types of places'')
       (composeQuery kottayam (js ''restaurants'')
          (js ''x Include various types of places such as companies, shops, restaurants, attractions, and services.''))"
proof -
  let ?p = "js ''x Include various types of places such as companies, shops, restaurants, attractions, and services.''"
  have "(js ''restaurants'', js ''Restaurants'') \<in> set filterOptions"
    by (simp add: filterOptions_def)
  moreover have "js ''restaurants'' \<noteq> js ''all''"
    by code_simp
  moreover have "fst (handleSearch (getPlaceInfo (throwing NonError))
          (initialState\<lparr> filterCategory := js ''restaurants'', prompt := ?p \<rparr>))
     = [(defaultKottayamCoords, composeQuery kottayam (js ''restaurants'') ?p)]"
    by (simp add: handleSearch_kottayam_calls initialState_def)
  moreover have "sublist genericClause (composeQuery kottayam (js ''restaurants'') ?p)"
    by code_simp
  moreover have "sublist (js ''various types of places'')
                   (composeQuery kottayam (js ''restaurants'') ?p)"
    by code_simp
  ultimately show ?thesis by simp
qed

text \<open>
  C3, amended. Let \<open>handleSearch\<close> call the service with query \<open>q\<close>, the category filter
  being one of the options, with label \<open>label\<close>. If the filter is not \<open>all\<close>, then \<open>q\<close>
  contains the lower-cased label, so contains the label when the case of the letters A
  to Z is ignored, and \<open>q\<close> does not contain \<open>various types of places\<close> unless the user's trimmed text contains
  it. If the filter is \<open>all\<close>, then \<open>q\<close> contains the generic clause.
\<close>

theorem handleSearch_query_category:
  "(coords, q) \<in> set (fst (handleSearch svc s)) \<Longrightarrow>
   (filterCategory s, label) \<in> set filterOptions \<Longrightarrow>
   (filterCategory s \<noteq> js ''all'' \<longrightarrow>
      sublist (toLowerCase label) q
      \<and> sublist (toLowerCase label) (toLowerCase q)
      \<and> (\<not> sublist (js ''various types of places'') (trim (prompt s)) \<longrightarrow>
           \<not> sublist (js ''various types of places'') q))
   \<and> (filterCategory s = js ''all'' \<longrightarrow> sublist genericClause q)"
proof -
  assume c: "(coords, q) \<in> set (fst (handleSearch svc s))"
    and o: "(filterCategory s, label) \<in> set filterOptions"
  note q = handleSearch_calls [OF c]
  have all: "sublist genericClause q" if "filterCategory s = js ''all''"
    unfolding q that by (rule generic_in_all)
  have specific: "sublist (toLowerCase label) q
      \<and> sublist (toLowerCase label) (toLowerCase q)
      \<and> (\<not> sublist (js ''various types of places'') (trim (prompt s)) \<longrightarrow>
           \<not> sublist (js ''various types of places'') q)"
    if n: "filterCategory s \<noteq> js ''all''"
  proof (intro conjI impI)
    show l: "sublist (toLowerCase label) q"
      using label_in_specific [OF n, of "searchContext s" "prompt s"]
      by (simp only: q labelText_option [OF o])
    have "sublist (map lowerUnit (toLowerCase label)) (map lowerUnit q)"
      using l by (rule map_mono_sublist)
    then show "sublist (toLowerCase label) (toLowerCase q)"
      by (simp only: toLowerCase_def [symmetric] toLowerCase_idem)
    assume "\<not> sublist (js ''various types of places'') (trim (prompt s))"
    then show "\<not> sublist (js ''various types of places'') q"
      by (simp only: q phrase_in_specific [OF o n] not_False_eq_True)
  qed
  from all specific show ?thesis by blast
qed

theorem handleSearch_query_category_witness:
  "fst (handleSearch (getPlaceInfo (throwing NonError))
          (initialState\<lparr> filterCategory := js ''restaurants'' \<rparr>))
     = [(defaultKottayamCoords, composeQuery kottayam (js ''restaurants'') [])]
   \<and> (js ''restaurants'', js ''Restaurants'') \<in> set filterOptions
   \<and> js ''restaurants'' \<noteq> js ''all''
   \<and> toLowerCase (js ''Restaurants'') = js ''restaurants''
   \<and> sublist (js ''restaurants'') (composeQuery kottayam (js ''restaurants'') [])
   \<and> sublist (js ''restaurants'') (toLowerCase (composeQuery kottayam (js ''restaurants'') []))
   \<and> \<not> sublist (js ''various types of places'') (trim [])
   \<and> \<not> sublist (js ''various types of places'') (composeQuery kottayam (js ''restaurants'') [])
   \<and> fst (handleSearch (getPlaceInfo (throwing NonError)) initialState)
     = [(defaultKottayamCoords, composeQuery kottayam (js ''all'') [])]
   \<and> (js ''all'', js ''All Categories'') \<in> set filterOptions
   \<and> sublist genericClause (composeQuery kottayam (js ''all'') [])"
proof -
  let ?svc = "getPlaceInfo (throwing NonError)"
  let ?s = "initialState\<lparr> filterCategory := js ''restaurants'' \<rparr>"
  let ?q = "composeQuery kottayam (js ''restaurants'') []"
  let ?a = "composeQuery kottayam (js ''all'') []"
  have f: "fst (handleSearch ?svc ?s) = [(defaultKottayamCoords, ?q)]"
    by (simp add: handleSearch_kottayam_calls initialState_def)
  then have c: "(defaultKottayamCoords, ?q) \<in> set (fst (handleSearch ?svc ?s))"
    by simp
  have o: "(filterCategory ?s, js ''Restaurants'') \<in> set filterOptions"
    by (simp add: filterOptions_def)
  have n: "js ''restaurants'' \<noteq> js ''all''"
    by code_simp
  have l: "toLowerCase (js ''Restaurants'') = js ''restaurants''"
    by code_simp
  have t: "\<not> sublist (js ''various types of places'') (trim [])"
    by code_simp
  have g: "fst (handleSearch ?svc initialState) = [(defaultKottayamCoords, ?a)]"
    by (simp add: handleSearch_kottayam_calls initialState_def)
  then have d: "(defaultKottayamCoords, ?a) \<in> set (fst (handleSearch ?svc initialState))"
    by simp
  have p: "(filterCategory initialState, js ''All Categories'') \<in> set filterOptions"
    by (simp add: filterOptions_def initialState_def)
  have "sublist (toLowerCase (js ''Restaurants'')) ?q
      \<and> sublist (toLowerCase (js ''Restaurants'')) (toLowerCase ?q)
      \<and> (\<not> sublist (js ''various types of places'') (trim (prompt ?s)) \<longrightarrow>
           \<not> sublist (js ''various types of places'') ?q)"
    using handleSearch_query_category [OF c o] n by simp
  moreover have "sublist genericClause ?a"
    using handleSearch_query_category [OF d p] by (simp add: initialState_def)
  moreover have "prompt ?s = []"
    by (simp add: initialState_def)
  ultimately show ?thesis
    using f g n l t o p by (simp add: initialState_def)
qed

end
